theory Spec2Isabelle
  imports Main
begin

section \<open>distutils.cygwinccompiler: the Cygwin and MinGW adapters of the GNU toolchain\<close>

text \<open>
  A shallow embedding of \<^verbatim>\<open>setuptools/_distutils/cygwinccompiler.py\<close>. Exceptions are
  values of the type \<open>error\<close>, a function that may raise returns \<open>error + 'a\<close>, and what a
  method writes to the outside (warnings, the module-definition file, the call of the base
  linker) is a list of \<open>effect\<close>s, in the order the code performs them.
\<close>

subsection \<open>Exceptions\<close>

datatype error =
    KeyError string
  | ValueError string
  | TypeError string
  | IndexError string
  | OSError string
  | CCompilerError string
  | DistutilsPlatformError string
  | UnknownFileError string
  | CalledProcessError string

subsection \<open>Python strings and integers\<close>

definition isdigit :: "char \<Rightarrow> bool" where
  "isdigit c = (48 \<le> (of_char c :: nat) \<and> (of_char c :: nat) \<le> 57)"

text \<open>\<^verbatim>\<open>int(s)\<close> on a string of ASCII decimal digits.\<close>

definition py_int :: "string \<Rightarrow> int" where
  "py_int s = foldl (\<lambda>a c. 10 * a + (int (of_char c) - 48)) 0 s"

text \<open>\<^verbatim>\<open>str(n)\<close>, what \<^verbatim>\<open>"%s" % n\<close> prints for an integer.\<close>

fun str_nat :: "nat \<Rightarrow> string" where
  "str_nat n =
     (if n < 10 then [char_of (48 + n)]
      else str_nat (n div 10) @ [char_of (48 + n mod 10)])"

declare str_nat.simps [simp del]

definition py_str :: "int \<Rightarrow> string" where
  "py_str i = (if i < 0 then CHR ''-'' # str_nat (nat (- i)) else str_nat (nat i))"

text \<open>\<^verbatim>\<open>sub in s\<close> and \<^verbatim>\<open>s.startswith(sub)\<close> on strings.\<close>

definition startswith :: "string \<Rightarrow> string \<Rightarrow> bool" where
  "startswith s sub = (take (length sub) s = sub)"

fun contains :: "string \<Rightarrow> string \<Rightarrow> bool" where
  "contains [] sub = (sub = [])"
| "contains (c # cs) sub = (startswith (c # cs) sub \<or> contains cs sub)"

subsection \<open>The runtime-library table\<close>

text \<open>
  A \<^verbatim>\<open>RangeMap\<close> is a dictionary; here it is the list of its items in the order the source
  writes them, the value \<open>None\<close> standing for \<^verbatim>\<open>RangeMap.undefined_value\<close>.
\<close>

type_synonym 'v RangeMap = "(int \<times> 'v option) list"

definition msvcr_lookup :: "string list RangeMap" where
  "msvcr_lookup =
     [(1300, Some [''msvcr70'']),
      (1310, Some [''msvcr71'']),
      (1400, Some [''msvcr80'']),
      (1500, Some [''msvcr90'']),
      (1600, Some [''msvcr100'']),
      (1700, Some [''msvcr110'']),
      (1800, Some [''msvcr120'']),
      (1900, Some [''vcruntime140'']),
      (2000, None)]"

text \<open>
  Modelled from the spec: the subscript of \<^verbatim>\<open>RangeMap.left\<close> (class \<^verbatim>\<open>RangeMap\<close> of
  \<^verbatim>\<open>_collections.py\<close>, which is not among the sources). The spec: a version falls into the
  range starting at the largest table key that is at most the version; a version at or above
  the upper sentinel resolves to the undefined value, which signals failure. The keys are
  tried from the largest down, the first one that is at most the item is taken, and the
  lookup raises \<^verbatim>\<open>KeyError\<close> when there is none or when its value is the undefined one.
\<close>

definition RangeMap_left_getitem :: "'v RangeMap \<Rightarrow> int \<Rightarrow> error + 'v" where
  "RangeMap_left_getitem m item =
     (case filter (\<lambda>k. k \<le> item) (rev (sort (map fst m))) of
        [] \<Rightarrow> Inl (KeyError (py_str item))
      | key # _ \<Rightarrow>
          (case map_of m key of
             Some (Some v) \<Rightarrow> Inr v
           | _ \<Rightarrow> Inl (KeyError (py_str key))))"

subsection \<open>get_msvcr\<close>

text \<open>
  \<^verbatim>\<open>re.search(r'MSC v\.(\d{4})', s)\<close>: the leftmost place where the marker is followed by
  four digits; the result is group 1, or \<open>None\<close> when there is no match. Digits are the ASCII
  ones.
\<close>

definition match_msc :: "string \<Rightarrow> string option" where
  "match_msc s =
     (let g = take 4 (drop 6 s)
      in if startswith s ''MSC v.'' \<and> length g = 4 \<and> list_all isdigit g then Some g else None)"

fun re_search_msc :: "string \<Rightarrow> string option" where
  "re_search_msc [] = None"
| "re_search_msc (c # cs) =
     (case match_msc (c # cs) of Some g \<Rightarrow> Some g | None \<Rightarrow> re_search_msc cs)"

text \<open>
  \<open>sys.version\<close> is a parameter. The result \<open>Inr None\<close> is the bare \<^verbatim>\<open>return\<close> of the
  \<^verbatim>\<open>AttributeError\<close> handler (no match, so \<^verbatim>\<open>match.group\<close> fails on \<^verbatim>\<open>None\<close>).
\<close>

definition get_msvcr :: "string \<Rightarrow> error + string list option" where
  "get_msvcr sys_version =
     (case re_search_msc sys_version of
        None \<Rightarrow> Inr None
      | Some g \<Rightarrow>
          (let msc_ver = py_int g
           in case RangeMap_left_getitem msvcr_lookup msc_ver of
                Inr libs \<Rightarrow> Inr (Some libs)
              | Inl (KeyError _) \<Rightarrow>
                  Inl (ValueError (''Unknown MS Compiler version '' @ py_str msc_ver @ '' ''))
              | Inl e \<Rightarrow> Inl e))"

text \<open>The version number that \<open>get_msvcr\<close> reads from the version string, if any.\<close>

definition msc_ver_of :: "string \<Rightarrow> int option" where
  "msc_ver_of sys_version = map_option py_int (re_search_msc sys_version)"

subsection \<open>os.path\<close>

text \<open>
  The functions of \<^verbatim>\<open>os.path\<close> that the module calls. Which module \<^verbatim>\<open>os.path\<close> is depends
  on the interpreter (\<^verbatim>\<open>posixpath\<close> under Cygwin's Python, \<^verbatim>\<open>ntpath\<close> under a native
  Windows Python), so the methods take it as a parameter.
\<close>

record os_path =
  basename :: "string \<Rightarrow> string"
  dirname :: "string \<Rightarrow> string"
  splitext :: "string \<Rightarrow> string \<times> string"
  join :: "string \<Rightarrow> string \<Rightarrow> string"
  normcase :: "string \<Rightarrow> string"
  splitdrive :: "string \<Rightarrow> string \<times> string"
  isabs :: "string \<Rightarrow> bool"

text \<open>\<^verbatim>\<open>p.rfind(c)\<close>: the last index of \<open>c\<close> in \<open>p\<close>, or \<open>-1\<close>.\<close>

definition rfind :: "string \<Rightarrow> char \<Rightarrow> int" where
  "rfind p c =
     (case filter (\<lambda>i. p ! i = c) (rev [0..<length p]) of [] \<Rightarrow> - 1 | i # _ \<Rightarrow> int i)"

definition endswith :: "string \<Rightarrow> string \<Rightarrow> bool" where
  "endswith s sub = (length sub \<le> length s \<and> drop (length s - length sub) s = sub)"

definition posix_basename :: "string \<Rightarrow> string" where
  "posix_basename p = (let i = rfind p (CHR ''/'') + 1 in drop (nat i) p)"

definition posix_dirname :: "string \<Rightarrow> string" where
  "posix_dirname p =
     (let i = rfind p (CHR ''/'') + 1;
          head = take (nat i) p
      in if head \<noteq> [] \<and> head \<noteq> replicate (length head) (CHR ''/'')
         then rev (dropWhile (\<lambda>c. c = CHR ''/'') (rev head))
         else head)"

definition posix_join :: "string \<Rightarrow> string \<Rightarrow> string" where
  "posix_join a b =
     (if startswith b ''/'' then b
      else if a = [] \<or> endswith a ''/'' then a @ b
      else a @ ''/'' @ b)"

text \<open>
  \<^verbatim>\<open>genericpath._splitext(p, '/', None, '.')\<close>: the extension starts at the last dot, when
  that dot comes after the last separator and after a character of the file name that is not
  a dot.
\<close>

definition posix_splitext :: "string \<Rightarrow> string \<times> string" where
  "posix_splitext p =
     (let sepIndex = rfind p (CHR ''/'');
          dotIndex = rfind p (CHR ''.'')
      in if dotIndex > sepIndex \<and>
            list_ex (\<lambda>filenameIndex. p ! filenameIndex \<noteq> CHR ''.'')
              [nat (sepIndex + 1)..<nat dotIndex]
         then (take (nat dotIndex) p, drop (nat dotIndex) p)
         else (p, []))"

definition posixpath :: os_path where
  "posixpath =
     \<lparr>basename = posix_basename, dirname = posix_dirname, splitext = posix_splitext,
      join = posix_join, normcase = (\<lambda>s. s), splitdrive = (\<lambda>p. ([], p)),
      isabs = (\<lambda>s. startswith s ''/'')\<rparr>"

text \<open>
  \<^verbatim>\<open>ntpath\<close>, the \<^verbatim>\<open>os.path\<close> of a native Windows Python (as in CPython 3.11). A character
  of the model is a code point below 256. \<^verbatim>\<open>str.lower\<close> moves the upper-case letters among
  them (\<open>A\<close> to \<open>Z\<close>, and 192 to 222 without the multiplication sign 215) up by 32 and keeps
  every other one. \<^verbatim>\<open>str.upper\<close> moves the lower-case letters down by 32; the three whose
  upper-case form lies outside the model (181, 223, 255) are kept, which changes no
  comparison with ASCII text, the only use made of it.
\<close>

definition py_lower :: "char \<Rightarrow> char" where
  "py_lower c =
     (let n = (of_char c :: nat)
      in if (65 \<le> n \<and> n \<le> 90) \<or> (192 \<le> n \<and> n \<le> 214) \<or> (216 \<le> n \<and> n \<le> 222)
         then char_of (n + 32) else c)"

definition py_upper :: "char \<Rightarrow> char" where
  "py_upper c =
     (let n = (of_char c :: nat)
      in if (97 \<le> n \<and> n \<le> 122) \<or> (224 \<le> n \<and> n \<le> 246) \<or> (248 \<le> n \<and> n \<le> 254)
         then char_of (n - 32) else c)"

text \<open>\<^verbatim>\<open>p.replace('/', '\\')\<close>, and \<^verbatim>\<open>c in '\\/'\<close>.\<close>

definition replace_altsep :: "string \<Rightarrow> string" where
  "replace_altsep p = map (\<lambda>c. if c = CHR ''/'' then CHR 0x5C else c) p"

definition is_sep :: "char \<Rightarrow> bool" where
  "is_sep c = (c = CHR 0x5C \<or> c = CHR ''/'')"

text \<open>\<^verbatim>\<open>ntpath.normcase\<close>, in its form \<^verbatim>\<open>s.replace('/', '\\').lower()\<close>.\<close>

definition ntpath_normcase :: "string \<Rightarrow> string" where
  "ntpath_normcase s = map py_lower (replace_altsep s)"

text \<open>\<^verbatim>\<open>p.find(c, start)\<close>: the first index of \<open>c\<close> in \<open>p\<close> from \<open>start\<close> on, or \<open>-1\<close>.\<close>

definition find_from :: "string \<Rightarrow> char \<Rightarrow> nat \<Rightarrow> int" where
  "find_from p c start =
     (case filter (\<lambda>i. p ! i = c) [start..<length p] of [] \<Rightarrow> - 1 | i # _ \<Rightarrow> int i)"

definition ntpath_splitdrive :: "string \<Rightarrow> string \<times> string" where
  "ntpath_splitdrive p =
     (if 2 \<le> length p
      then (let normp = replace_altsep p
            in if take 2 normp = [CHR 0x5C, CHR 0x5C]
               then (let start =
                           (if map py_upper (take 8 normp) =
                               [CHR 0x5C, CHR 0x5C, CHR ''?'', CHR 0x5C] @ ''UNC'' @ [CHR 0x5C]
                            then 8 else 2);
                         index = find_from normp (CHR 0x5C) start
                     in if index = - 1 then (p, [])
                        else (let index2 = find_from normp (CHR 0x5C) (nat (index + 1))
                              in if index2 = - 1 then (p, [])
                                 else (take (nat index2) p, drop (nat index2) p)))
               else if take 1 (drop 1 normp) = '':'' then (take 2 p, drop 2 p)
               else ([], p))
      else ([], p))"

definition ntpath_isabs :: "string \<Rightarrow> bool" where
  "ntpath_isabs s0 =
     (let s = replace_altsep (take 3 s0)
      in startswith s [CHR 0x5C] \<or> startswith (drop 1 s) [CHR '':'', CHR 0x5C])"

definition ntpath_join :: "string \<Rightarrow> string \<Rightarrow> string" where
  "ntpath_join path p =
     (let (result_drive, result_path) = ntpath_splitdrive path;
          (p_drive, p_path) = ntpath_splitdrive p;
          (result_drive, result_path) =
            (if p_path \<noteq> [] \<and> is_sep (hd p_path)
             then (if p_drive \<noteq> [] \<or> result_drive = [] then p_drive else result_drive, p_path)
             else if p_drive \<noteq> [] \<and> p_drive \<noteq> result_drive \<and>
                     map py_lower p_drive \<noteq> map py_lower result_drive
             then (p_drive, p_path)
             else (if p_drive \<noteq> [] \<and> p_drive \<noteq> result_drive then p_drive else result_drive,
                   (if result_path \<noteq> [] \<and> \<not> is_sep (last result_path)
                    then result_path @ [CHR 0x5C] else result_path) @ p_path))
      in if result_path \<noteq> [] \<and> \<not> is_sep (hd result_path) \<and>
            result_drive \<noteq> [] \<and> last result_drive \<noteq> CHR '':''
         then result_drive @ [CHR 0x5C] @ result_path
         else result_drive @ result_path)"

text \<open>
  \<^verbatim>\<open>ntpath.split\<close>: the tail is what follows the last separator of the path without its
  drive; the head loses its trailing separators unless it consists of them.
\<close>

definition ntpath_split :: "string \<Rightarrow> string \<times> string" where
  "ntpath_split p0 =
     (let (d, p) = ntpath_splitdrive p0;
          i = length p - length (takeWhile (\<lambda>c. \<not> is_sep c) (rev p));
          head = take i p;
          tail = drop i p;
          stripped = rev (dropWhile is_sep (rev head))
      in (d @ (if stripped = [] then head else stripped), tail))"

text \<open>\<^verbatim>\<open>genericpath._splitext(p, '\\', '/', '.')\<close>.\<close>

definition ntpath_splitext :: "string \<Rightarrow> string \<times> string" where
  "ntpath_splitext p =
     (let sepIndex = max (rfind p (CHR 0x5C)) (rfind p (CHR ''/''));
          dotIndex = rfind p (CHR ''.'')
      in if dotIndex > sepIndex \<and>
            list_ex (\<lambda>filenameIndex. p ! filenameIndex \<noteq> CHR ''.'')
              [nat (sepIndex + 1)..<nat dotIndex]
         then (take (nat dotIndex) p, drop (nat dotIndex) p)
         else (p, []))"

definition ntpath :: os_path where
  "ntpath =
     \<lparr>basename = (\<lambda>p. snd (ntpath_split p)), dirname = (\<lambda>p. fst (ntpath_split p)),
      splitext = ntpath_splitext, join = ntpath_join, normcase = ntpath_normcase,
      splitdrive = ntpath_splitdrive, isabs = ntpath_isabs\<rparr>"

subsection \<open>List objects and effects\<close>

text \<open>
  The lists that \<open>link\<close> copies and extends are objects of a store: an address is an index
  into the list of all list objects, and a new object gets the next index.
\<close>

type_synonym addr = nat
type_synonym store = "string list list"

definition alloc :: "store \<Rightarrow> string list \<Rightarrow> store \<times> addr" where
  "alloc h v = (h @ [v], length h)"

text \<open>\<^verbatim>\<open>x or []\<close>: \<open>x\<close> itself when it is a non-empty list, a new empty list otherwise.\<close>

definition py_or_empty :: "store \<Rightarrow> addr option \<Rightarrow> store \<times> addr" where
  "py_or_empty h x =
     (case x of
        None \<Rightarrow> alloc h []
      | Some r \<Rightarrow> if h ! r = [] then alloc h [] else (h, r))"

text \<open>\<^verbatim>\<open>copy.copy(x)\<close> of a list: a new list object with the same elements.\<close>

definition copy_copy :: "store \<Rightarrow> addr \<Rightarrow> store \<times> addr" where
  "copy_copy h r = alloc h (h ! r)"

datatype effect =
    Warn string
  | Debug_print string
  | Execute_write_file string "string list" string

subsection \<open>The compiler object\<close>

text \<open>
  The attributes of the compiler object that the module reads or sets. \<open>EXECUTABLE\<close> and
  \<open>src_extensions\<close> are constants of the base classes, which are not among the sources:
  they are whatever the object holds after the base constructor. \<open>executables\<close> holds the
  keyword arguments given to \<^verbatim>\<open>set_executables\<close>, latest first.
\<close>

record compiler =
  compiler_type :: string
  obj_extension :: string
  EXECUTABLE :: string
  src_extensions :: "string list"
  cc :: string
  cxx :: string
  linker_dll :: string
  executables :: "(string \<times> string) list"
  dll_libraries :: "string list option"

text \<open>
  Modelled from the spec: \<^verbatim>\<open>set_executables\<close> of the base class \<^verbatim>\<open>CCompiler\<close>, which is not
  among the sources. The spec says only that the constructor assembles the executables and
  their default flag sets, so the model records the keyword arguments of each call.
\<close>

definition set_executables :: "compiler \<Rightarrow> (string \<times> string) list \<Rightarrow> compiler" where
  "set_executables self kwargs = self\<lparr>executables := kwargs @ executables self\<rparr>"

definition runtime_library_dirs_msg :: string where
  "runtime_library_dirs_msg =
     ''Unable to set runtime library search path on Windows, '' @
     ''usually indicated by `runtime_library_dirs` parameter to Extension''"

subsection \<open>CygwinCCompiler.link\<close>

text \<open>
  The parameters of \<open>link\<close>, which are also the parameters of \<^verbatim>\<open>UnixCCompiler.link\<close>. The
  three lists that the method copies are references into the store; the other parameters are
  only read or passed on, and are values. \<open>debug\<close> is an integer, false when \<open>0\<close>.
\<close>

record link_args =
  target_desc :: string
  objects :: "addr option"
  output_filename :: string
  output_dir :: "string option"
  libraries :: "addr option"
  library_dirs :: "string list option"
  runtime_library_dirs :: "string list option"
  export_symbols :: "string list option"
  debug :: int
  extra_preargs :: "addr option"
  extra_postargs :: "string list option"
  build_temp :: "string option"
  target_lang :: "string option"

text \<open>The path of the module-definition file; \<^verbatim>\<open>objects[0]\<close> raises on an empty list.\<close>

definition def_file_path :: "os_path \<Rightarrow> string list \<Rightarrow> string \<Rightarrow> error + string" where
  "def_file_path P objs out_name =
     (case objs of
        [] \<Rightarrow> Inl (IndexError ''list index out of range'')
      | o0 # _ \<Rightarrow>
          (let temp_dir = dirname P o0;
               (dll_name, dll_extension) = splitext P (basename P out_name);
               def_file = join P temp_dir (dll_name @ ''.def'')
           in Inr def_file))"

text \<open>The lines of the module-definition file; the loop appends the symbols one by one.\<close>

definition def_file_contents :: "os_path \<Rightarrow> string \<Rightarrow> string list \<Rightarrow> string list" where
  "def_file_contents P out_name syms =
     foldl (\<lambda>contents sym. contents @ [sym])
       [''LIBRARY '' @ basename P out_name, ''EXPORTS''] syms"

text \<open>
  The end of \<open>link\<close>: the strip flag, and the call of \<^verbatim>\<open>UnixCCompiler.link\<close>. That method
  is not among the sources, so the model stops at the call: the result \<open>Inr c\<close> says that
  \<open>link\<close> calls the base method with the arguments \<open>c\<close> (and behaves as that call does).
\<close>

definition link_delegate ::
  "link_args \<Rightarrow> effect list \<Rightarrow> store \<Rightarrow> addr \<Rightarrow> addr \<Rightarrow> addr \<Rightarrow>
   effect list \<times> store \<times> (error + link_args)" where
  "link_delegate a effs h pre libs objs =
     (let h' = (if debug a = 0 then h[pre := h ! pre @ [''-s'']] else h)
      in (effs, h',
          Inr (a\<lparr>objects := Some objs, libraries := Some libs, export_symbols := None,
                 extra_preargs := Some pre\<rparr>)))"

definition NoneType_not_iterable :: string where
  "NoneType_not_iterable = [CHR 0x27] @ ''NoneType'' @ [CHR 0x27] @ '' object is not iterable''"

text \<open>
  The first three statements of \<open>link\<close>: the copies of \<open>extra_preargs\<close>, \<open>libraries\<close> and
  \<open>objects\<close>, in this order. The result is the store and the addresses of the three copies.
\<close>

definition link_copies :: "store \<Rightarrow> link_args \<Rightarrow> store \<times> addr \<times> addr \<times> addr" where
  "link_copies h a =
     (let (h1, pre) = (case py_or_empty h (extra_preargs a) of (h', r) \<Rightarrow> copy_copy h' r);
          (h2, libs) = (case py_or_empty h1 (libraries a) of (h', r) \<Rightarrow> copy_copy h' r);
          (h3, objs) = (case py_or_empty h2 (objects a) of (h', r) \<Rightarrow> copy_copy h' r)
      in (h3, pre, libs, objs))"

text \<open>The warning of \<open>link\<close> for a non-empty \<open>runtime_library_dirs\<close>.\<close>

definition warn_runtime_library_dirs :: "link_args \<Rightarrow> effect list" where
  "warn_runtime_library_dirs a =
     (case runtime_library_dirs a of
        None \<Rightarrow> []
      | Some dirs \<Rightarrow> if dirs = [] then [] else [Warn runtime_library_dirs_msg])"

text \<open>The rest of \<open>link\<close>, on the copies.\<close>

definition link_body ::
  "os_path \<Rightarrow> compiler \<Rightarrow> link_args \<Rightarrow> store \<Rightarrow> addr \<Rightarrow> addr \<Rightarrow> addr \<Rightarrow>
   effect list \<times> store \<times> (error + link_args)" where
  "link_body P self a h3 pre libs objs =
     (let effs = warn_runtime_library_dirs a
      in case dll_libraries self of
           None \<Rightarrow> (effs, h3, Inl (TypeError NoneType_not_iterable))
         | Some dlls \<Rightarrow>
             (let h4 = h3[libs := h3 ! libs @ dlls]
              in case export_symbols a of
                   None \<Rightarrow> link_delegate a effs h4 pre libs objs
                 | Some syms \<Rightarrow>
                     if target_desc a \<noteq> EXECUTABLE self \<or> linker_dll self = ''gcc''
                     then (case def_file_path P (h4 ! objs) (output_filename a) of
                             Inl e \<Rightarrow> (effs, h4, Inl e)
                           | Inr def_file \<Rightarrow>
                               link_delegate a
                                 (effs @ [Execute_write_file def_file
                                            (def_file_contents P (output_filename a) syms)
                                            (''writing '' @ def_file)])
                                 (h4[objs := h4 ! objs @ [def_file]]) pre libs objs)
                     else link_delegate a effs h4 pre libs objs))"

definition link ::
  "os_path \<Rightarrow> compiler \<Rightarrow> store \<Rightarrow> link_args \<Rightarrow> effect list \<times> store \<times> (error + link_args)" where
  "link P self h a =
     (case link_copies h a of (h3, pre, libs, objs) \<Rightarrow> link_body P self a h3 pre libs objs)"

text \<open>
  Reading the model: the list behind an optional reference (\<open>None\<close> reads as the empty
  list, as \<^verbatim>\<open>x or []\<close> does), the references of a call that name objects of the store, and
  the list that \<open>link\<close> hands to the base method in one of its list parameters.
\<close>

definition deref :: "store \<Rightarrow> addr option \<Rightarrow> string list" where
  "deref h x = (case x of None \<Rightarrow> [] | Some r \<Rightarrow> h ! r)"

definition valid_ref :: "store \<Rightarrow> addr option \<Rightarrow> bool" where
  "valid_ref h x = (case x of None \<Rightarrow> True | Some r \<Rightarrow> r < length h)"

definition valid_args :: "store \<Rightarrow> link_args \<Rightarrow> bool" where
  "valid_args h a =
     (valid_ref h (extra_preargs a) \<and> valid_ref h (libraries a) \<and> valid_ref h (objects a))"

definition passed ::
  "(link_args \<Rightarrow> addr option) \<Rightarrow> effect list \<times> store \<times> (error + link_args) \<Rightarrow>
   error + string list" where
  "passed field res =
     (case res of
        (effs, h', Inl e) \<Rightarrow> Inl e
      | (effs, h', Inr c) \<Rightarrow> Inr (deref h' (field c)))"

definition fresh :: "store \<Rightarrow> addr option \<Rightarrow> bool" where
  "fresh h x = (case x of None \<Rightarrow> False | Some r \<Rightarrow> length h \<le> r)"

definition writes_def_file :: "effect \<Rightarrow> bool" where
  "writes_def_file e = (case e of Execute_write_file f c m \<Rightarrow> True | _ \<Rightarrow> False)"

subsection \<open>runtime_library_dir_option\<close>

text \<open>Each returns the warnings it prints and its result: the option list, or the exception.\<close>

definition CygwinCCompiler_runtime_library_dir_option ::
  "string \<Rightarrow> effect list \<times> (error + string list)" where
  "CygwinCCompiler_runtime_library_dir_option dir = ([Warn runtime_library_dirs_msg], Inr [])"

definition Mingw32CCompiler_runtime_library_dir_option ::
  "string \<Rightarrow> effect list \<times> (error + string list)" where
  "Mingw32CCompiler_runtime_library_dir_option dir =
     ([], Inl (DistutilsPlatformError runtime_library_dirs_msg))"

subsection \<open>Output paths\<close>

text \<open>
  Modelled from the spec: \<^verbatim>\<open>out_extensions\<close> and \<^verbatim>\<open>_make_out_path\<close> of the base class
  \<^verbatim>\<open>CCompiler\<close> (\<^verbatim>\<open>ccompiler.py\<close>, which is not among the sources). The spec names an
  "extension to object extension" mapping of the base adapter, on which the resource
  extensions are layered, and an output-path derivation that matches the extension of the
  source name against it. The base mapping sends every source extension of the object to its
  object extension; the derivation splits the extension off, makes the rest relative (no
  drive, no leading separator), fails on an extension the mapping does not know, keeps only
  the file name when \<open>strip_dir\<close> is set, and joins the output directory with the new name.
\<close>

definition CCompiler_out_extensions :: "compiler \<Rightarrow> string \<Rightarrow> string option" where
  "CCompiler_out_extensions self =
     map_of (map (\<lambda>ext. (ext, obj_extension self)) (src_extensions self))"

text \<open>
  Modelled from the spec: \<^verbatim>\<open>_make_out_path\<close> of the base class \<^verbatim>\<open>CCompiler\<close>, as described
  above; \<open>exts\<close> is the extension mapping of the object.
\<close>

definition CCompiler_make_out_path ::
  "os_path \<Rightarrow> (string \<Rightarrow> string option) \<Rightarrow> string \<Rightarrow> bool \<Rightarrow> string \<Rightarrow> error + string" where
  "CCompiler_make_out_path P exts out_dir strip_dir src_name =
     (let (base, ext) = splitext P src_name;
          no_drive = snd (splitdrive P base);
          base = drop (if isabs P no_drive then 1 else 0) no_drive
      in case exts ext of
           None \<Rightarrow>
             Inl (UnknownFileError
                    (''unknown file type '' @ [CHR 0x27] @ ext @ [CHR 0x27] @
                     '' (from '' @ [CHR 0x27] @ src_name @ [CHR 0x27] @ '')''))
         | Some new_ext \<Rightarrow>
             Inr (join P out_dir ((if strip_dir then basename P base else base) @ new_ext)))"

text \<open>
  \<open>out_extensions\<close> of \<open>CygwinCCompiler\<close>: the base mapping, overridden at \<open>.res\<close> and
  \<open>.rc\<close>.
\<close>

definition out_extensions :: "compiler \<Rightarrow> string \<Rightarrow> string option" where
  "out_extensions self =
     CCompiler_out_extensions self ++
     map_of (map (\<lambda>ext. (ext, ext @ obj_extension self)) [''.res'', ''.rc''])"

definition make_out_path ::
  "os_path \<Rightarrow> compiler \<Rightarrow> string \<Rightarrow> bool \<Rightarrow> string \<Rightarrow> error + string" where
  "make_out_path P self out_dir strip_dir src_name =
     (let norm_src_name = normcase P src_name
      in CCompiler_make_out_path P (out_extensions self) out_dir strip_dir norm_src_name)"

subsection \<open>The interpreter and its surroundings\<close>

text \<open>
  What the module reads from outside: \<^verbatim>\<open>sys.version\<close>, \<^verbatim>\<open>os.environ\<close>, the name and the
  text of \<^verbatim>\<open>pyconfig.h\<close> (\<open>read_text\<close> gives the text or the exception), \<^verbatim>\<open>repr\<close> of a
  string, \<^verbatim>\<open>shlex.split\<close>, and \<^verbatim>\<open>subprocess.check_output\<close>, the output of a command or the
  exception it ends with.
\<close>

record py_env =
  sys_version :: string
  environ :: "string \<Rightarrow> string option"
  get_config_h_filename :: string
  read_text :: "string \<Rightarrow> error + string"
  py_repr :: "string \<Rightarrow> string"
  shlex_split :: "string \<Rightarrow> error + string list"
  check_output :: "string list \<Rightarrow> error + string"

text \<open>\<^verbatim>\<open>os.environ.get(key, default)\<close>.\<close>

definition environ_get :: "py_env \<Rightarrow> string \<Rightarrow> string \<Rightarrow> string" where
  "environ_get env key dflt = (case environ env key of Some v \<Rightarrow> v | None \<Rightarrow> dflt)"

definition CONFIG_H_OK :: string where "CONFIG_H_OK = ''ok''"
definition CONFIG_H_NOTOK :: string where "CONFIG_H_NOTOK = ''not ok''"
definition CONFIG_H_UNCERTAIN :: string where "CONFIG_H_UNCERTAIN = ''uncertain''"

definition check_config_h :: "py_env \<Rightarrow> error + string \<times> string" where
  "check_config_h env =
     (if contains (sys_version env) ''GCC''
      then Inr (CONFIG_H_OK, ''sys.version mentions '' @ [CHR 0x27] @ ''GCC'' @ [CHR 0x27])
      else if contains (sys_version env) ''Clang''
      then Inr (CONFIG_H_OK, ''sys.version mentions '' @ [CHR 0x27] @ ''Clang'' @ [CHR 0x27])
      else
        (let fn = get_config_h_filename env
         in case read_text env fn of
              Inr config_h \<Rightarrow>
                (let substring = ''__GNUC__'';
                     (code, mention_inflected) =
                       (if contains config_h substring then (CONFIG_H_OK, ''mentions'')
                        else (CONFIG_H_NOTOK, ''does not mention''))
                 in Inr (code, py_repr env fn @ '' '' @ mention_inflected @ '' '' @
                               py_repr env substring))
            | Inl (OSError strerror) \<Rightarrow>
                Inr (CONFIG_H_UNCERTAIN,
                     ''couldn'' @ [CHR 0x27] @ ''t read '' @ [CHR 0x27] @ fn @ [CHR 0x27] @
                     '': '' @ strerror)
            | Inl e \<Rightarrow> Inl e))"

text \<open>\<^verbatim>\<open>bytes.strip()\<close>: the ASCII white space at both ends goes.\<close>

definition isspace :: "char \<Rightarrow> bool" where
  "isspace c = ((of_char c :: nat) \<in> {9, 10, 11, 12, 13, 32})"

definition strip :: "string \<Rightarrow> string" where
  "strip s = rev (dropWhile isspace (rev (dropWhile isspace s)))"

definition is_cygwincc :: "py_env \<Rightarrow> string \<Rightarrow> error + bool" where
  "is_cygwincc env cc_cmd =
     (case shlex_split env cc_cmd of
        Inl e \<Rightarrow> Inl e
      | Inr argv \<Rightarrow>
          (case check_output env (argv @ [''-dumpmachine'']) of
             Inl e \<Rightarrow> Inl e
           | Inr out_string \<Rightarrow> Inr (endswith (strip out_string) ''cygwin'')))"

subsection \<open>The constructors\<close>

text \<open>
  The argument \<open>self0\<close> is the object as the constructor of the base class leaves it (that
  constructor is not among the sources). A constructor returns what it prints and the
  finished object, or the exception that ends it.
\<close>

definition CygwinCCompiler_init :: "py_env \<Rightarrow> compiler \<Rightarrow> effect list \<times> (error + compiler)" where
  "CygwinCCompiler_init env self0 =
     (case check_config_h env of
        Inl e \<Rightarrow> ([], Inl e)
      | Inr (status, details) \<Rightarrow>
          (let effs =
                 [Debug_print (''Python'' @ [CHR 0x27] @ ''s GCC status: '' @ status @
                               '' (details: '' @ details @ '')'')] @
                 (if status \<noteq> CONFIG_H_OK
                  then [Warn (''Python'' @ [CHR 0x27] @ ''s pyconfig.h doesn'' @ [CHR 0x27] @
                              ''t seem to support your compiler. '' @
                              ''Reason: '' @ details @ ''. '' @
                              ''Compiling may fail because of undefined preprocessor macros.'')]
                  else []);
               self1 = self0\<lparr>compiler_type := ''cygwin'', obj_extension := ''.o'',
                              cc := environ_get env ''CC'' ''gcc'',
                              cxx := environ_get env ''CXX'' ''g++'',
                              linker_dll := environ_get env ''CC'' ''gcc''\<rparr>;
               shared_option = ''-shared'';
               self2 = set_executables self1
                 [(''compiler'', cc self1 @ '' -mcygwin -O -Wall''),
                  (''compiler_so'', cc self1 @ '' -mcygwin -mdll -O -Wall''),
                  (''compiler_cxx'', cxx self1 @ '' -mcygwin -O -Wall''),
                  (''linker_exe'', cc self1 @ '' -mcygwin''),
                  (''linker_so'', linker_dll self1 @ '' -mcygwin '' @ shared_option)]
           in case get_msvcr (sys_version env) of
                Inl e \<Rightarrow> (effs, Inl e)
              | Inr libs \<Rightarrow> (effs, Inr (self2\<lparr>dll_libraries := libs\<rparr>))))"

definition Mingw32CCompiler_init :: "py_env \<Rightarrow> compiler \<Rightarrow> effect list \<times> (error + compiler)" where
  "Mingw32CCompiler_init env self0 =
     (case CygwinCCompiler_init env self0 of
        (effs, Inl e) \<Rightarrow> (effs, Inl e)
      | (effs, Inr self1) \<Rightarrow>
          (let self2 = self1\<lparr>compiler_type := ''mingw32''\<rparr>;
               shared_option = ''-shared''
           in case is_cygwincc env (cc self2) of
                Inl e \<Rightarrow> (effs, Inl e)
              | Inr is_cyg \<Rightarrow>
                  if is_cyg
                  then (effs, Inl (CCompilerError
                                     ''Cygwin gcc cannot be used with --compiler=mingw32''))
                  else (effs, Inr (set_executables self2
                          [(''compiler'', cc self2 @ '' -O -Wall''),
                           (''compiler_so'', cc self2 @ '' -mdll -O -Wall''),
                           (''compiler_cxx'', cxx self2 @ '' -O -Wall''),
                           (''linker_exe'', cc self2),
                           (''linker_so'', linker_dll self2 @ '' '' @ shared_option)]))))"

subsection \<open>Example objects\<close>

text \<open>
  Concrete inputs for the evaluations below: the object as the base constructor of
  \<^verbatim>\<open>UnixCCompiler\<close> leaves it, a Python built with MSVC that finds a MinGW compiler, the
  same Python finding a Cygwin compiler, and a Python built with GCC (as Cygwin's own is).
\<close>

definition example_base :: compiler where
  "example_base =
     \<lparr>compiler_type = ''unix'', obj_extension = ''.o'', EXECUTABLE = ''executable'',
      src_extensions = [''.c'', ''.C'', ''.cc'', ''.cxx'', ''.cpp'', ''.m''],
      cc = [], cxx = [], linker_dll = [], executables = [], dll_libraries = None\<rparr>"

definition example_msvc_python :: py_env where
  "example_msvc_python =
     \<lparr>sys_version = ''3.10.11 (tags/v3.10.11) [MSC v.1929 64 bit (AMD64)]'',
      environ = (\<lambda>k. None),
      get_config_h_filename = ''pyconfig.h'',
      read_text = (\<lambda>fn. Inr ''#ifdef __GNUC__''),
      py_repr = (\<lambda>s. [CHR 0x27] @ s @ [CHR 0x27]),
      shlex_split = (\<lambda>s. Inr [s]),
      check_output = (\<lambda>cmd. Inr (''x86_64-w64-mingw32'' @ [CHR 0x0A]))\<rparr>"

definition example_msvc_python_cygwin_gcc :: py_env where
  "example_msvc_python_cygwin_gcc =
     example_msvc_python\<lparr>check_output := (\<lambda>cmd. Inr (''x86_64-pc-cygwin'' @ [CHR 0x0A]))\<rparr>"

definition example_gcc_python :: py_env where
  "example_gcc_python =
     example_msvc_python
       \<lparr>sys_version := ''3.10.12 (main, Jun 2023) [GCC 11.4.0]'',
        check_output := (\<lambda>cmd. Inr (''x86_64-pc-cygwin'' @ [CHR 0x0A]))\<rparr>"

text \<open>
  A Python whose version string names an MS compiler version beyond the table, finding a
  Cygwin compiler and finding a MinGW compiler.
\<close>

definition example_msc2000_python_cygwin_gcc :: py_env where
  "example_msc2000_python_cygwin_gcc =
     example_msvc_python_cygwin_gcc\<lparr>sys_version := ''3.99.0 [MSC v.2000 64 bit (AMD64)]''\<rparr>"

definition example_msc2000_python :: py_env where
  "example_msc2000_python =
     example_msvc_python\<lparr>sys_version := ''3.99.0 [MSC v.2000 64 bit (AMD64)]''\<rparr>"

text \<open>A compiler object whose runtime libraries were resolved to a list.\<close>

definition example_self :: compiler where
  "example_self =
     example_base\<lparr>compiler_type := ''cygwin'', cc := ''gcc'', cxx := ''g++'',
                   linker_dll := ''gcc'', dll_libraries := Some [''vcruntime140'']\<rparr>"

text \<open>
  A call that links \<open>build/a.o\<close> into the shared object \<open>mylib.dll\<close> and exports \<open>foo\<close>
  and \<open>bar\<close>; the store holds the caller's three lists at the addresses 0, 1 and 2.
\<close>

definition example_store :: store where
  "example_store = [[''build/a.o''], [''m''], [''-O2'']]"

definition example_call :: link_args where
  "example_call =
     \<lparr>target_desc = ''shared_object'', objects = Some 0, output_filename = ''mylib.dll'',
      output_dir = None, libraries = Some 1, library_dirs = None,
      runtime_library_dirs = None, export_symbols = Some [''foo'', ''bar''], debug = 0,
      extra_preargs = Some 2, extra_postargs = None, build_temp = None,
      target_lang = None\<rparr>"

section \<open>Properties\<close>

subsection \<open>The runtime-library resolver\<close>

lemma msvcr_keys_desc:
  "rev (sort (map fst msvcr_lookup)) = [2000, 1900, 1800, 1700, 1600, 1500, 1400, 1310, 1300]"
  by (simp add: msvcr_lookup_def)

lemma msvcr_getitem_cases:
  "RangeMap_left_getitem msvcr_lookup v =
     (if 2000 \<le> v then Inl (KeyError (py_str 2000))
      else if 1900 \<le> v then Inr [''vcruntime140'']
      else if 1800 \<le> v then Inr [''msvcr120'']
      else if 1700 \<le> v then Inr [''msvcr110'']
      else if 1600 \<le> v then Inr [''msvcr100'']
      else if 1500 \<le> v then Inr [''msvcr90'']
      else if 1400 \<le> v then Inr [''msvcr80'']
      else if 1310 \<le> v then Inr [''msvcr71'']
      else if 1300 \<le> v then Inr [''msvcr70'']
      else Inl (KeyError (py_str v)))"
  unfolding RangeMap_left_getitem_def msvcr_keys_desc
  by (simp add: msvcr_lookup_def)

lemma get_msvcr_unfold:
  "msc_ver_of ver = Some v \<Longrightarrow>
   get_msvcr ver =
     (case RangeMap_left_getitem msvcr_lookup v of
        Inr libs \<Rightarrow> Inr (Some libs)
      | Inl (KeyError x) \<Rightarrow>
          Inl (ValueError (''Unknown MS Compiler version '' @ py_str v @ '' ''))
      | Inl e \<Rightarrow> Inl e)"
  by (auto simp: msc_ver_of_def get_msvcr_def Let_def split: option.splits)

text \<open>
  C1. When the version string carries the marker with the value \<open>v\<close>: for
  \<open>1300 \<le> v < 2000\<close> the resolver returns the library list stored at the greatest key of the
  table that is at most \<open>v\<close> (\<open>msvcr70\<close> for 1300 to 1309, \<open>vcruntime140\<close> for 1900 to 1999),
  and for \<open>v \<ge> 2000\<close> it raises the value error "Unknown MS Compiler version" and returns no
  list.
\<close>

theorem get_msvcr_greatest_boundary:
  assumes "msc_ver_of ver = Some v"
  shows "(1300 \<le> v \<and> v < 2000 \<longrightarrow>
            (\<exists>b libs. (b, Some libs) \<in> set msvcr_lookup \<and> b \<le> v \<and>
               (\<forall>b' \<in> fst ` set msvcr_lookup. b' \<le> v \<longrightarrow> b' \<le> b) \<and>
               get_msvcr ver = Inr (Some libs))) \<and>
         (1300 \<le> v \<and> v < 1310 \<longrightarrow> get_msvcr ver = Inr (Some [''msvcr70''])) \<and>
         (1900 \<le> v \<and> v < 2000 \<longrightarrow> get_msvcr ver = Inr (Some [''vcruntime140''])) \<and>
         (2000 \<le> v \<longrightarrow>
            get_msvcr ver =
              Inl (ValueError (''Unknown MS Compiler version '' @ py_str v @ '' '')))"
proof -
  note g = get_msvcr_unfold [OF assms] msvcr_getitem_cases
  have keys: "fst ` set msvcr_lookup = {1300, 1310, 1400, 1500, 1600, 1700, 1800, 1900, 2000}"
    by (auto simp: msvcr_lookup_def)
  have a: "1300 \<le> v \<and> v < 1310 \<longrightarrow> get_msvcr ver = Inr (Some [''msvcr70''])"
    by (simp add: g)
  have b: "1900 \<le> v \<and> v < 2000 \<longrightarrow> get_msvcr ver = Inr (Some [''vcruntime140''])"
    by (simp add: g)
  have c: "2000 \<le> v \<longrightarrow>
            get_msvcr ver =
              Inl (ValueError (''Unknown MS Compiler version '' @ py_str v @ '' ''))"
    by (simp add: g)
  have d: "\<exists>b libs. (b, Some libs) \<in> set msvcr_lookup \<and> b \<le> v \<and>
               (\<forall>b' \<in> fst ` set msvcr_lookup. b' \<le> v \<longrightarrow> b' \<le> b) \<and>
               get_msvcr ver = Inr (Some libs)"
    if r: "1300 \<le> v" "v < 2000"
  proof -
    consider "v < 1310" | "1310 \<le> v" "v < 1400" | "1400 \<le> v" "v < 1500"
      | "1500 \<le> v" "v < 1600" | "1600 \<le> v" "v < 1700" | "1700 \<le> v" "v < 1800"
      | "1800 \<le> v" "v < 1900" | "1900 \<le> v"
      by linarith
    then show ?thesis
    proof cases
      case 1
      with r show ?thesis
        by (intro exI [of _ 1300] exI [of _ "[''msvcr70'']"]) (simp add: g keys, simp add: msvcr_lookup_def)
    next
      case 2
      with r show ?thesis
        by (intro exI [of _ 1310] exI [of _ "[''msvcr71'']"]) (simp add: g keys, simp add: msvcr_lookup_def)
    next
      case 3
      with r show ?thesis
        by (intro exI [of _ 1400] exI [of _ "[''msvcr80'']"]) (simp add: g keys, simp add: msvcr_lookup_def)
    next
      case 4
      with r show ?thesis
        by (intro exI [of _ 1500] exI [of _ "[''msvcr90'']"]) (simp add: g keys, simp add: msvcr_lookup_def)
    next
      case 5
      with r show ?thesis
        by (intro exI [of _ 1600] exI [of _ "[''msvcr100'']"]) (simp add: g keys, simp add: msvcr_lookup_def)
    next
      case 6
      with r show ?thesis
        by (intro exI [of _ 1700] exI [of _ "[''msvcr110'']"]) (simp add: g keys, simp add: msvcr_lookup_def)
    next
      case 7
      with r show ?thesis
        by (intro exI [of _ 1800] exI [of _ "[''msvcr120'']"]) (simp add: g keys, simp add: msvcr_lookup_def)
    next
      case 8
      with r show ?thesis
        by (intro exI [of _ 1900] exI [of _ "[''vcruntime140'']"]) (simp add: g keys, simp add: msvcr_lookup_def)
    qed
  qed
  from a b c d show ?thesis by blast
qed

theorem get_msvcr_greatest_boundary_witness:
  "msc_ver_of ''3.10.11 (tags/v3.10.11) [MSC v.1929 64 bit (AMD64)]'' = Some 1929 \<and>
   get_msvcr ''3.10.11 (tags/v3.10.11) [MSC v.1929 64 bit (AMD64)]'' =
     Inr (Some [''vcruntime140''])"
proof -
  have h: "msc_ver_of ''3.10.11 (tags/v3.10.11) [MSC v.1929 64 bit (AMD64)]'' = Some 1929"
    by code_simp
  from get_msvcr_greatest_boundary [OF h] show ?thesis
    using h by simp
qed

subsection \<open>link\<close>


lemma take_prefix_nth: "take n h1 = h \<Longrightarrow> i < length h \<Longrightarrow> h1 ! i = h ! i"
  by (metis nth_take length_take min_less_iff_conj)

lemma copy_step:
  assumes "(case py_or_empty h x of (h', r) \<Rightarrow> copy_copy h' r) = (h1, p)"
  shows "take (length h) h1 = h \<and> length h \<le> p \<and> Suc p = length h1 \<and>
         (valid_ref h x \<longrightarrow> h1 ! p = deref h x)"
  using assms
  by (auto simp: py_or_empty_def copy_copy_def alloc_def valid_ref_def deref_def nth_append
           split: option.splits if_splits)

lemma deref_prefix:
  "take (length h) h1 = h \<Longrightarrow> valid_ref h x \<Longrightarrow> deref h1 x = deref h x"
  by (auto simp: deref_def valid_ref_def take_prefix_nth split: option.splits)

lemma valid_ref_prefix:
  "take (length h) h1 = h \<Longrightarrow> valid_ref h x \<Longrightarrow> valid_ref h1 x"
  by (auto simp: valid_ref_def split: option.splits)
     (metis length_take min.strict_boundedE not_less_iff_gr_or_eq order_less_le_trans nat_le_linear)

lemma link_copies_props:
  assumes "link_copies h a = (h3, pre, libs, objs)"
  shows "take (length h) h3 = h \<and> length h \<le> pre \<and> pre < libs \<and> libs < objs \<and>
         objs < length h3 \<and>
         (valid_args h a \<longrightarrow>
            h3 ! pre = deref h (extra_preargs a) \<and> h3 ! libs = deref h (libraries a) \<and>
            h3 ! objs = deref h (objects a))"
proof -
  obtain h1 p1 where s1: "(case py_or_empty h (extra_preargs a) of (h', r) \<Rightarrow> copy_copy h' r) = (h1, p1)"
    by fastforce
  obtain h2 p2 where s2: "(case py_or_empty h1 (libraries a) of (h', r) \<Rightarrow> copy_copy h' r) = (h2, p2)"
    by fastforce
  obtain h3' p3 where s3: "(case py_or_empty h2 (objects a) of (h', r) \<Rightarrow> copy_copy h' r) = (h3', p3)"
    by fastforce
  from assms s1 s2 s3 have eq: "h3 = h3'" "pre = p1" "libs = p2" "objs = p3"
    by (simp_all add: link_copies_def)
  note c1 = copy_step [OF s1] and c2 = copy_step [OF s2] and c3 = copy_step [OF s3]
  have l: "length h \<le> length h1" "length h1 \<le> length h2" "length h2 \<le> length h3'"
    using c1 c2 c3 by linarith+
  have t12: "take (length h) h2 = h"
    by (metis c1 c2 l(1) min.absorb2 take_take min.commute)
  have t13: "take (length h) h3' = h"
    by (metis t12 c3 l(1) l(2) le_trans min.absorb2 take_take min.commute)
  have t23: "take (length h1) h3' = h1"
    by (metis c2 c3 l(2) min.absorb2 take_take min.commute)
  have v: "valid_args h a \<Longrightarrow>
            h3' ! p1 = deref h (extra_preargs a) \<and> h3' ! p2 = deref h (libraries a) \<and>
            h3' ! p3 = deref h (objects a)"
  proof -
    assume va: "valid_args h a"
    from va have vr: "valid_ref h (extra_preargs a)" "valid_ref h (libraries a)"
      "valid_ref h (objects a)" by (simp_all add: valid_args_def)
    have a1: "h1 ! p1 = deref h (extra_preargs a)" using c1 vr by simp
    have "h3' ! p1 = h1 ! p1" using t23 c1 by (intro take_prefix_nth [of "length h1"]) auto
    moreover
    have "valid_ref h1 (libraries a)" using vr(2) c1 by (blast intro: valid_ref_prefix)
    then have "h2 ! p2 = deref h1 (libraries a)" using c2 by simp
    then have a2: "h2 ! p2 = deref h (libraries a)"
      using deref_prefix [of h h1 "libraries a"] c1 vr(2) by simp
    have "h3' ! p2 = h2 ! p2" using c3 c2 by (intro take_prefix_nth [of "length h2"]) auto
    moreover
    have "valid_ref h2 (objects a)" using vr(3) t12 by (blast intro: valid_ref_prefix)
    then have "h3' ! p3 = deref h2 (objects a)" using c3 by simp
    then have a3: "h3' ! p3 = deref h (objects a)"
      using deref_prefix [of h h2 "objects a"] t12 vr(3) by simp
    ultimately show ?thesis using a1 a2 a3 by simp
  qed
  show ?thesis
    unfolding eq using t13 c1 c2 c3 v by auto
qed


lemma link_unfold:
  obtains h3 pre libs objs where
    "link_copies h a = (h3, pre, libs, objs)"
    "link P self h a = link_body P self a h3 pre libs objs"
  by (cases "link_copies h a") (auto simp: link_def)

lemma foldl_snoc: "foldl (\<lambda>contents sym. contents @ [sym]) xs syms = xs @ syms"
  by (induction syms arbitrary: xs) auto

lemma def_file_contents_eq:
  "def_file_contents P out_name syms = (''LIBRARY '' @ basename P out_name) # ''EXPORTS'' # syms"
  by (simp add: def_file_contents_def foldl_snoc)

lemma warn_cases:
  "warn_runtime_library_dirs a = [] \<or> warn_runtime_library_dirs a = [Warn runtime_library_dirs_msg]"
  by (simp add: warn_runtime_library_dirs_def split: option.splits)

lemma warn_no_write: "Execute_write_file f c m \<notin> set (warn_runtime_library_dirs a)"
  using warn_cases [of a] by auto

lemma link_body_no_dlls:
  "dll_libraries self = None \<Longrightarrow>
   link_body P self a h3 pre libs objs =
     (warn_runtime_library_dirs a, h3, Inl (TypeError NoneType_not_iterable))"
  by (simp add: link_body_def)

lemma link_body_plain:
  "dll_libraries self = Some dlls \<Longrightarrow>
   export_symbols a = None \<or> \<not> (target_desc a \<noteq> EXECUTABLE self \<or> linker_dll self = ''gcc'') \<Longrightarrow>
   link_body P self a h3 pre libs objs =
     link_delegate a (warn_runtime_library_dirs a) (h3[libs := h3 ! libs @ dlls]) pre libs objs"
  by (auto simp: link_body_def Let_def split: option.splits)

lemma link_body_no_objects:
  "dll_libraries self = Some dlls \<Longrightarrow> export_symbols a = Some syms \<Longrightarrow>
   target_desc a \<noteq> EXECUTABLE self \<or> linker_dll self = ''gcc'' \<Longrightarrow>
   (h3[libs := h3 ! libs @ dlls]) ! objs = [] \<Longrightarrow>
   link_body P self a h3 pre libs objs =
     (warn_runtime_library_dirs a, h3[libs := h3 ! libs @ dlls],
      Inl (IndexError ''list index out of range''))"
  by (auto simp: link_body_def Let_def def_file_path_def)

lemma link_body_def_file:
  "dll_libraries self = Some dlls \<Longrightarrow> export_symbols a = Some syms \<Longrightarrow>
   target_desc a \<noteq> EXECUTABLE self \<or> linker_dll self = ''gcc'' \<Longrightarrow>
   (h3[libs := h3 ! libs @ dlls]) ! objs = o0 # os \<Longrightarrow>
   df = join P (dirname P o0) (fst (splitext P (basename P (output_filename a))) @ ''.def'') \<Longrightarrow>
   link_body P self a h3 pre libs objs =
     link_delegate a
       (warn_runtime_library_dirs a @
        [Execute_write_file df
           ((''LIBRARY '' @ basename P (output_filename a)) # ''EXPORTS'' # syms)
           (''writing '' @ df)])
       (h3[libs := h3 ! libs @ dlls, objs := o0 # os @ [df]]) pre libs objs"
  by (auto simp: link_body_def Let_def def_file_path_def def_file_contents_eq
           split: prod.splits)

lemma link_delegate_result:
  "link_delegate a effs h pre libs objs =
     (effs, (if debug a = 0 then h[pre := h ! pre @ [''-s'']] else h),
      Inr (a\<lparr>objects := Some objs, libraries := Some libs, export_symbols := None,
             extra_preargs := Some pre\<rparr>))"
  by (simp add: link_delegate_def)


lemma link_body_effects:
  "fst (link_body P self a h3 pre libs objs) = warn_runtime_library_dirs a \<or>
   (\<exists>df syms. export_symbols a = Some syms \<and>
      fst (link_body P self a h3 pre libs objs) =
        warn_runtime_library_dirs a @
        [Execute_write_file df
           ((''LIBRARY '' @ basename P (output_filename a)) # ''EXPORTS'' # syms)
           (''writing '' @ df)])"
proof (cases "dll_libraries self")
  case None
  then show ?thesis by (simp add: link_body_no_dlls)
next
  case (Some dlls)
  show ?thesis
  proof (cases "export_symbols a = None \<or>
                \<not> (target_desc a \<noteq> EXECUTABLE self \<or> linker_dll self = ''gcc'')")
    case True
    then show ?thesis by (simp add: link_body_plain [OF Some] link_delegate_result)
  next
    case False
    then obtain syms where sy: "export_symbols a = Some syms"
      and co: "target_desc a \<noteq> EXECUTABLE self \<or> linker_dll self = ''gcc''" by auto
    show ?thesis
    proof (cases "(h3[libs := h3 ! libs @ dlls]) ! objs")
      case Nil
      then show ?thesis by (simp add: link_body_no_objects [OF Some sy co])
    next
      case (Cons o0 os)
      show ?thesis
        by (simp add: link_body_def_file [OF Some sy co Cons refl] link_delegate_result sy)
    qed
  qed
qed

text \<open>
  C2. Whenever \<open>link\<close> writes a module-definition file, the lines it writes are exactly
  \<open>LIBRARY\<close> and the base name of the output file, then \<open>EXPORTS\<close>, then the export symbols
  in the caller's order; for the symbols \<open>foo\<close>, \<open>bar\<close> and the output name \<open>mylib.dll\<close>
  they are \<open>LIBRARY mylib.dll\<close>, \<open>EXPORTS\<close>, \<open>foo\<close>, \<open>bar\<close>.
\<close>

theorem link_def_file_contents:
  assumes "Execute_write_file f c m \<in> set (fst (link P self h a))"
  shows "(\<exists>syms. export_symbols a = Some syms \<and>
            c = (''LIBRARY '' @ basename P (output_filename a)) # ''EXPORTS'' # syms) \<and>
         (output_filename a = ''mylib.dll'' \<and> export_symbols a = Some [''foo'', ''bar''] \<and>
          basename P ''mylib.dll'' = ''mylib.dll'' \<longrightarrow>
            c = [''LIBRARY mylib.dll'', ''EXPORTS'', ''foo'', ''bar''])"
proof -
  obtain h3 pre libs objs where l: "link P self h a = link_body P self a h3 pre libs objs"
    by (rule link_unfold)
  have "\<exists>syms. export_symbols a = Some syms \<and>
            c = (''LIBRARY '' @ basename P (output_filename a)) # ''EXPORTS'' # syms"
    using link_body_effects [of P self a h3 pre libs objs] assms warn_no_write [of f c m a]
    unfolding l by auto
  then show ?thesis by auto
qed

text \<open>
  C8. A link call with a non-empty \<open>runtime_library_dirs\<close> first prints the warning that
  the search path cannot be set, whatever happens afterwards and for either class (both use
  this \<open>link\<close>); \<open>runtime_library_dir_option\<close> of the Cygwin class warns and returns no
  options, and that of the MinGW class raises the platform error.
\<close>

theorem link_reports_runtime_library_dirs:
  assumes "runtime_library_dirs a = Some dirs" "dirs \<noteq> []"
  shows "(\<exists>rest. fst (link P self h a) = Warn runtime_library_dirs_msg # rest) \<and>
         CygwinCCompiler_runtime_library_dir_option dir = ([Warn runtime_library_dirs_msg], Inr []) \<and>
         Mingw32CCompiler_runtime_library_dir_option dir =
           ([], Inl (DistutilsPlatformError runtime_library_dirs_msg))"
proof -
  obtain h3 pre libs objs where l: "link P self h a = link_body P self a h3 pre libs objs"
    by (rule link_unfold)
  have w: "warn_runtime_library_dirs a = [Warn runtime_library_dirs_msg]"
    using assms by (simp add: warn_runtime_library_dirs_def)
  have "\<exists>rest. fst (link P self h a) = Warn runtime_library_dirs_msg # rest"
    using link_body_effects [of P self a h3 pre libs objs] unfolding l w by auto
  then show ?thesis
    by (simp add: CygwinCCompiler_runtime_library_dir_option_def
          Mingw32CCompiler_runtime_library_dir_option_def)
qed

lemma link_body_store:
  "take n (fst (snd (link_body P self a h3 pre libs objs))) = take n h3"
  if "n \<le> pre" "n \<le> libs" "n \<le> objs"
  using that
  by (simp add: link_body_def link_delegate_def Let_def split: option.splits sum.splits)

lemma link_body_refs:
  "snd (snd (link_body P self a h3 pre libs objs)) = Inr c \<Longrightarrow>
     extra_preargs c = Some pre \<and> libraries c = Some libs \<and> objects c = Some objs \<and>
     export_symbols c = None"
  by (auto simp: link_body_def link_delegate_def Let_def split: option.splits sum.splits if_splits)

text \<open>
  C9. \<open>link\<close> changes none of the list objects that exist when it is called: the store it
  leaves agrees with the initial one on every initial address, also when it fails, and the
  three lists it hands to the base method are new objects.
\<close>

theorem link_frame:
  "take (length h) (fst (snd (link P self h a))) = h \<and>
   (case snd (snd (link P self h a)) of
      Inl e \<Rightarrow> True
    | Inr c \<Rightarrow> fresh h (extra_preargs c) \<and> fresh h (libraries c) \<and> fresh h (objects c))"
proof -
  obtain h3 pre libs objs where c: "link_copies h a = (h3, pre, libs, objs)"
    and l: "link P self h a = link_body P self a h3 pre libs objs"
    by (rule link_unfold)
  note p = link_copies_props [OF c]
  have "take (length h) (fst (snd (link P self h a))) = take (length h) h3"
    unfolding l using p by (intro link_body_store) auto
  moreover have "fresh h (extra_preargs c) \<and> fresh h (libraries c) \<and> fresh h (objects c)"
    if "snd (snd (link P self h a)) = Inr c" for c
    using link_body_refs [OF that [unfolded l]] p by (simp add: fresh_def)
  ultimately show ?thesis using p by (auto split: sum.splits)
qed


lemma link_plain:
  assumes va: "valid_args h a" and d: "dll_libraries self = Some dlls"
    and n: "export_symbols a = None \<or>
            \<not> (target_desc a \<noteq> EXECUTABLE self \<or> linker_dll self = ''gcc'')"
  shows "\<exists>h' c. link P self h a = (warn_runtime_library_dirs a, h', Inr c) \<and>
           export_symbols c = None \<and>
           deref h' (objects c) = deref h (objects a) \<and>
           deref h' (libraries c) = deref h (libraries a) @ dlls \<and>
           deref h' (extra_preargs c) =
             deref h (extra_preargs a) @ (if debug a = 0 then [''-s''] else [])"
proof -
  obtain h3 pre libs objs where c: "link_copies h a = (h3, pre, libs, objs)"
    and l: "link P self h a = link_body P self a h3 pre libs objs"
    by (rule link_unfold)
  from link_copies_props [OF c] va
  have p: "pre < libs" "libs < objs" "objs < length h3"
    "h3 ! pre = deref h (extra_preargs a)" "h3 ! libs = deref h (libraries a)"
    "h3 ! objs = deref h (objects a)" by simp_all
  show ?thesis
    unfolding l link_body_plain [OF d n] link_delegate_result using p
    by (simp add: deref_def)
qed

lemma link_with_def_file:
  assumes va: "valid_args h a" and d: "dll_libraries self = Some dlls"
    and sy: "export_symbols a = Some syms"
    and co: "target_desc a \<noteq> EXECUTABLE self \<or> linker_dll self = ''gcc''"
    and ob: "deref h (objects a) = o0 # os"
    and df: "df = join P (dirname P o0)
                    (fst (splitext P (basename P (output_filename a))) @ ''.def'')"
  shows "\<exists>h' c. link P self h a =
             (warn_runtime_library_dirs a @
              [Execute_write_file df
                 ((''LIBRARY '' @ basename P (output_filename a)) # ''EXPORTS'' # syms)
                 (''writing '' @ df)], h', Inr c) \<and>
           export_symbols c = None \<and>
           deref h' (objects c) = (o0 # os) @ [df] \<and>
           deref h' (libraries c) = deref h (libraries a) @ dlls \<and>
           deref h' (extra_preargs c) =
             deref h (extra_preargs a) @ (if debug a = 0 then [''-s''] else [])"
proof -
  obtain h3 pre libs objs where c: "link_copies h a = (h3, pre, libs, objs)"
    and l: "link P self h a = link_body P self a h3 pre libs objs"
    by (rule link_unfold)
  from link_copies_props [OF c] va
  have p: "pre < libs" "libs < objs" "objs < length h3"
    "h3 ! pre = deref h (extra_preargs a)" "h3 ! libs = deref h (libraries a)"
    "h3 ! objs = deref h (objects a)" by simp_all
  have o: "(h3[libs := h3 ! libs @ dlls]) ! objs = o0 # os"
    using p ob by simp
  show ?thesis
    unfolding l link_body_def_file [OF d sy co o df] link_delegate_result using p
    by (simp add: deref_def)
qed

lemma link_no_objects:
  assumes va: "valid_args h a"
    and sy: "export_symbols a = Some syms"
    and co: "target_desc a \<noteq> EXECUTABLE self \<or> linker_dll self = ''gcc''"
    and ob: "deref h (objects a) = []"
  shows "\<exists>h'. link P self h a =
           (warn_runtime_library_dirs a, h',
            Inl (if dll_libraries self = None then TypeError NoneType_not_iterable
                 else IndexError ''list index out of range''))"
proof -
  obtain h3 pre libs objs where c: "link_copies h a = (h3, pre, libs, objs)"
    and l: "link P self h a = link_body P self a h3 pre libs objs"
    by (rule link_unfold)
  from link_copies_props [OF c] va
  have p: "pre < libs" "libs < objs" "objs < length h3"
    "h3 ! objs = deref h (objects a)" by simp_all
  show ?thesis
  proof (cases "dll_libraries self")
    case None
    then show ?thesis unfolding l by (simp add: link_body_no_dlls)
  next
    case (Some dlls)
    have "(h3[libs := h3 ! libs @ dlls]) ! objs = []" using p ob by simp
    from link_body_no_objects [OF Some sy co this] Some show ?thesis
      unfolding l by simp
  qed
qed

lemma filter_warn_writes: "filter writes_def_file (warn_runtime_library_dirs a) = []"
  using warn_cases [of a] by (auto simp: writes_def_file_def)

theorem link_def_file_contents_witness:
  "Execute_write_file ''build/mylib.def'' [''LIBRARY mylib.dll'', ''EXPORTS'', ''foo'', ''bar'']
       ''writing build/mylib.def''
     \<in> set (fst (link posixpath example_self example_store example_call)) \<and>
   output_filename example_call = ''mylib.dll'' \<and>
   export_symbols example_call = Some [''foo'', ''bar''] \<and>
   basename posixpath ''mylib.dll'' = ''mylib.dll''"
proof -
  have h: "Execute_write_file ''build/mylib.def''
             [''LIBRARY mylib.dll'', ''EXPORTS'', ''foo'', ''bar''] ''writing build/mylib.def''
           \<in> set (fst (link posixpath example_self example_store example_call))"
    by code_simp
  have e: "output_filename example_call = ''mylib.dll'' \<and>
           export_symbols example_call = Some [''foo'', ''bar''] \<and>
           basename posixpath ''mylib.dll'' = ''mylib.dll''"
    by code_simp
  from link_def_file_contents [OF h] e show ?thesis using h by simp
qed

theorem link_reports_runtime_library_dirs_witness:
  "runtime_library_dirs (example_call\<lparr>runtime_library_dirs := Some [''/opt/lib'']\<rparr>) =
     Some [''/opt/lib''] \<and>
   [''/opt/lib''] \<noteq> [] \<and>
   hd (fst (link posixpath example_self example_store
              (example_call\<lparr>runtime_library_dirs := Some [''/opt/lib'']\<rparr>))) =
     Warn runtime_library_dirs_msg"
proof -
  have h: "runtime_library_dirs (example_call\<lparr>runtime_library_dirs := Some [''/opt/lib'']\<rparr>) =
     Some [''/opt/lib'']" by simp
  have n: "[''/opt/lib''] \<noteq> []" by simp
  have "\<exists>rest. fst (link posixpath example_self example_store
              (example_call\<lparr>runtime_library_dirs := Some [''/opt/lib'']\<rparr>)) =
           Warn runtime_library_dirs_msg # rest"
    using link_reports_runtime_library_dirs [OF h n, where dir = "[]"] by blast
  then show ?thesis using h by auto
qed

theorem link_frame_witness:
  "take 3 (fst (snd (link posixpath example_self example_store example_call))) = example_store"
proof -
  have l: "length example_store = 3" by (simp add: example_store_def)
  from link_frame [of example_store posixpath example_self example_call]
  show ?thesis by (simp add: l)
qed

text \<open>
  C3 (amended). For a link call with a non-empty \<open>objects\<close> list, on a compiler object
  whose \<open>dll_libraries\<close> is a list: \<open>link\<close> reaches the base method, to which it passes no
  export symbols; it writes the module-definition file if and only if export symbols are
  supplied and the target is not an executable or the linker is \<open>gcc\<close>; and when it writes
  the file, the path of the file (the directory of the first object, the base name of the
  output file without its extension, \<open>.def\<close>) is appended to the objects passed on.
\<close>

theorem link_def_file_iff:
  assumes "valid_args h a" and "dll_libraries self = Some dlls"
    and "deref h (objects a) = o0 # os"
  shows "\<exists>effs h' c.
           link P self h a = (effs, h', Inr c) \<and> export_symbols c = None \<and>
           ((filter writes_def_file effs \<noteq> []) =
              (export_symbols a \<noteq> None \<and>
               (target_desc a \<noteq> EXECUTABLE self \<or> linker_dll self = ''gcc''))) \<and>
           (case export_symbols a of
              None \<Rightarrow> deref h' (objects c) = o0 # os
            | Some syms \<Rightarrow>
                if target_desc a \<noteq> EXECUTABLE self \<or> linker_dll self = ''gcc''
                then filter writes_def_file effs =
                       [Execute_write_file
                          (join P (dirname P o0)
                             (fst (splitext P (basename P (output_filename a))) @ ''.def''))
                          ((''LIBRARY '' @ basename P (output_filename a)) # ''EXPORTS'' # syms)
                          (''writing '' @
                           join P (dirname P o0)
                             (fst (splitext P (basename P (output_filename a))) @ ''.def''))] \<and>
                     deref h' (objects c) =
                       (o0 # os) @
                       [join P (dirname P o0)
                          (fst (splitext P (basename P (output_filename a))) @ ''.def'')]
                else deref h' (objects c) = o0 # os)"
proof (cases "export_symbols a = None \<or>
              \<not> (target_desc a \<noteq> EXECUTABLE self \<or> linker_dll self = ''gcc'')")
  case True
  from link_plain [OF assms(1,2) True, of P] obtain h' c where
    l: "link P self h a = (warn_runtime_library_dirs a, h', Inr c)"
    and c: "export_symbols c = None" "deref h' (objects c) = deref h (objects a)"
    by blast
  show ?thesis
    apply (rule exI [of _ "warn_runtime_library_dirs a"])
    apply (rule exI [of _ h'])
    apply (rule exI [of _ c])
    using True l c assms(3)
    by (auto simp: filter_warn_writes split: option.splits)
next
  case False
  then obtain syms where sy: "export_symbols a = Some syms"
    and co: "target_desc a \<noteq> EXECUTABLE self \<or> linker_dll self = ''gcc''" by auto
  define df where "df = join P (dirname P o0)
                          (fst (splitext P (basename P (output_filename a))) @ ''.def'')"
  from link_with_def_file [OF assms(1,2) sy co assms(3) df_def] obtain h' c where
    l: "link P self h a =
          (warn_runtime_library_dirs a @
           [Execute_write_file df
              ((''LIBRARY '' @ basename P (output_filename a)) # ''EXPORTS'' # syms)
              (''writing '' @ df)], h', Inr c)"
    and c: "export_symbols c = None" "deref h' (objects c) = (o0 # os) @ [df]"
    by blast
  have f: "filter writes_def_file
             (warn_runtime_library_dirs a @
              [Execute_write_file df
                 ((''LIBRARY '' @ basename P (output_filename a)) # ''EXPORTS'' # syms)
                 (''writing '' @ df)]) =
           [Execute_write_file df
              ((''LIBRARY '' @ basename P (output_filename a)) # ''EXPORTS'' # syms)
              (''writing '' @ df)]"
    by (simp add: filter_warn_writes writes_def_file_def)
  show ?thesis
    apply (rule exI [of _ "warn_runtime_library_dirs a @
           [Execute_write_file df
              ((''LIBRARY '' @ basename P (output_filename a)) # ''EXPORTS'' # syms)
              (''writing '' @ df)]"])
    apply (rule exI [of _ h'])
    apply (rule exI [of _ c])
    unfolding f
    using sy co l c
    by (simp add: df_def)
qed

theorem link_def_file_iff_witness:
  "valid_args example_store example_call \<and> dll_libraries example_self = Some [''vcruntime140''] \<and>
   deref example_store (objects example_call) = ''build/a.o'' # [] \<and>
   filter writes_def_file (fst (link posixpath example_self example_store example_call)) \<noteq> [] \<and>
   passed objects (link posixpath example_self example_store example_call) =
     Inr [''build/a.o'', ''build/mylib.def'']"
proof -
  have v: "valid_args example_store example_call" by code_simp
  have d: "dll_libraries example_self = Some [''vcruntime140'']" by code_simp
  have ob: "deref example_store (objects example_call) = ''build/a.o'' # []" by code_simp
  have e: "export_symbols example_call = Some [''foo'', ''bar'']"
    "target_desc example_call \<noteq> EXECUTABLE example_self"
    "join posixpath (dirname posixpath ''build/a.o'')
       (fst (splitext posixpath (basename posixpath (output_filename example_call))) @ ''.def'')
     = ''build/mylib.def''"
    by code_simp+
  from link_def_file_iff [OF v d ob, of posixpath] v d ob show ?thesis
    by (auto simp: e passed_def)
qed

theorem link_def_file_iff_counterexample:
  "export_symbols example_call \<noteq> None \<and>
   target_desc example_call \<noteq> EXECUTABLE example_self \<and>
   dll_libraries example_self \<noteq> None \<and>
   deref [[], [''m''], [''-O2'']] (objects example_call) = [] \<and>
   fst (link posixpath example_self [[], [''m''], [''-O2'']] example_call) = [] \<and>
   snd (snd (link posixpath example_self [[], [''m''], [''-O2'']] example_call)) =
     Inl (IndexError ''list index out of range'')"
  by code_simp

text \<open>
  C5 (amended). Whenever \<open>link\<close> reaches the base method, the list of pre-link arguments it
  passes is the caller's list followed by \<open>-s\<close> when the debug flag is unset (the flag is
  appended, so it comes last), and the caller's list as it is when the debug flag is set.
\<close>

theorem link_strip_flag_appended:
  assumes "valid_args h a" and "snd (snd (link P self h a)) = Inr c"
  shows "passed extra_preargs (link P self h a) =
           Inr (deref h (extra_preargs a) @ (if debug a = 0 then [''-s''] else []))"
proof (cases "dll_libraries self")
  case None
  obtain h3 pre libs objs where "link P self h a = link_body P self a h3 pre libs objs"
    by (rule link_unfold)
  with assms(2) None show ?thesis by (simp add: link_body_no_dlls)
next
  case (Some dlls)
  show ?thesis
  proof (cases "export_symbols a = None \<or>
                \<not> (target_desc a \<noteq> EXECUTABLE self \<or> linker_dll self = ''gcc'')")
    case True
    from link_plain [OF assms(1) Some True, of P] show ?thesis
      by (auto simp: passed_def)
  next
    case False
    then obtain syms where sy: "export_symbols a = Some syms"
      and co: "target_desc a \<noteq> EXECUTABLE self \<or> linker_dll self = ''gcc''" by auto
    show ?thesis
    proof (cases "deref h (objects a)")
      case Nil
      from link_no_objects [OF assms(1) sy co Nil, of P] assms(2) show ?thesis by auto
    next
      case (Cons o0 os)
      from link_with_def_file [OF assms(1) Some sy co Cons refl, where P = P] show ?thesis
        by (auto simp: passed_def)
    qed
  qed
qed

theorem link_strip_flag_appended_witness:
  "valid_args example_store example_call \<and>
   (\<exists>c. snd (snd (link posixpath example_self example_store example_call)) = Inr c) \<and>
   passed extra_preargs (link posixpath example_self example_store example_call) =
     Inr [''-O2'', ''-s'']"
proof -
  have v: "valid_args example_store example_call" by code_simp
  have r: "snd (snd (link posixpath example_self example_store example_call)) =
           Inr (example_call\<lparr>objects := Some 5, libraries := Some 4, export_symbols := None,
                              extra_preargs := Some 3\<rparr>)"
    by code_simp
  have e: "deref example_store (extra_preargs example_call) = [''-O2'']" "debug example_call = 0"
    by code_simp+
  from link_strip_flag_appended [OF v r] v r show ?thesis
    by (simp add: e)
qed

theorem link_strip_flag_counterexample:
  "debug example_call = 0 \<and>
   deref example_store (extra_preargs example_call) = [''-O2''] \<and>
   passed extra_preargs (link posixpath example_self example_store example_call) =
     Inr [''-O2'', ''-s''] \<and>
   passed extra_preargs (link posixpath example_self example_store example_call) \<noteq>
     Inr ([''-s''] @ [''-O2''])"
  by code_simp

text \<open>
  The branch that writes the module-definition file, on a call with export symbols where the
  target is not an executable or the linker is \<open>gcc\<close>: with an empty (or absent) \<open>objects\<close>
  list the call fails before it writes a file, and where the compiler object holds a list of
  runtime libraries the failure is the index error of \<^verbatim>\<open>objects[0]\<close>; with a non-empty
  \<open>objects\<close> list, a list of runtime libraries and an empty list of export symbols it writes
  the file, which then holds the two header lines only.
\<close>

lemma link_export_with_dll_libraries:
  assumes "valid_args h a" and "export_symbols a = Some syms"
    and "target_desc a \<noteq> EXECUTABLE self \<or> linker_dll self = ''gcc''"
  shows "(deref h (objects a) = [] \<longrightarrow>
            (\<exists>e. snd (snd (link P self h a)) = Inl e) \<and>
            filter writes_def_file (fst (link P self h a)) = [] \<and>
            (dll_libraries self \<noteq> None \<longrightarrow>
               snd (snd (link P self h a)) = Inl (IndexError ''list index out of range''))) \<and>
         (deref h (objects a) \<noteq> [] \<and> dll_libraries self \<noteq> None \<and> syms = [] \<longrightarrow>
            filter writes_def_file (fst (link P self h a)) =
              [Execute_write_file
                 (join P (dirname P (hd (deref h (objects a))))
                    (fst (splitext P (basename P (output_filename a))) @ ''.def''))
                 [''LIBRARY '' @ basename P (output_filename a), ''EXPORTS'']
                 (''writing '' @
                  join P (dirname P (hd (deref h (objects a))))
                    (fst (splitext P (basename P (output_filename a))) @ ''.def''))])"
proof -
  have a: "(\<exists>e. snd (snd (link P self h a)) = Inl e) \<and>
            filter writes_def_file (fst (link P self h a)) = [] \<and>
            (dll_libraries self \<noteq> None \<longrightarrow>
               snd (snd (link P self h a)) = Inl (IndexError ''list index out of range''))"
    if "deref h (objects a) = []"
    using link_no_objects [OF assms that, of P] by (auto simp: filter_warn_writes)
  have b: "filter writes_def_file (fst (link P self h a)) =
              [Execute_write_file
                 (join P (dirname P (hd (deref h (objects a))))
                    (fst (splitext P (basename P (output_filename a))) @ ''.def''))
                 [''LIBRARY '' @ basename P (output_filename a), ''EXPORTS'']
                 (''writing '' @
                  join P (dirname P (hd (deref h (objects a))))
                    (fst (splitext P (basename P (output_filename a))) @ ''.def''))]"
    if ne: "deref h (objects a) \<noteq> []" and d: "dll_libraries self \<noteq> None" and e: "syms = []"
  proof -
    from ne obtain o0 os where ob: "deref h (objects a) = o0 # os"
      by (cases "deref h (objects a)") auto
    from d obtain dlls where dl: "dll_libraries self = Some dlls" by auto
    from link_with_def_file [OF assms(1) dl assms(2,3) ob refl, where P = P] show ?thesis
      by (auto simp: filter_warn_writes writes_def_file_def ob e)
  qed
  from a b show ?thesis by blast
qed

lemma link_export_with_dll_libraries_example:
  "valid_args [[], [''m''], [''-O2'']] example_call \<and>
   export_symbols example_call = Some [''foo'', ''bar''] \<and>
   target_desc example_call \<noteq> EXECUTABLE example_self \<and>
   deref [[], [''m''], [''-O2'']] (objects example_call) = [] \<and>
   dll_libraries example_self \<noteq> None \<and>
   snd (snd (link posixpath example_self [[], [''m''], [''-O2'']] example_call)) =
     Inl (IndexError ''list index out of range'')"
proof -
  have v: "valid_args [[], [''m''], [''-O2'']] example_call" by code_simp
  have s: "export_symbols example_call = Some [''foo'', ''bar'']" by code_simp
  have t: "target_desc example_call \<noteq> EXECUTABLE example_self \<or> linker_dll example_self = ''gcc''"
    by code_simp
  have o: "deref [[], [''m''], [''-O2'']] (objects example_call) = []" by code_simp
  have d: "dll_libraries example_self \<noteq> None" by code_simp
  have t': "target_desc example_call \<noteq> EXECUTABLE example_self" by code_simp
  from link_export_with_dll_libraries [OF v s t, of posixpath] v s t' o d show ?thesis
    by simp
qed

lemma link_empty_export_list_example:
  "fst (link posixpath example_self example_store (example_call\<lparr>export_symbols := Some []\<rparr>)) =
     [Execute_write_file ''build/mylib.def'' [''LIBRARY mylib.dll'', ''EXPORTS'']
        ''writing build/mylib.def'']"
  by code_simp

lemma get_msvcr_no_marker: "re_search_msc ver = None \<Longrightarrow> get_msvcr ver = Inr None"
  by (simp add: get_msvcr_def)

lemma link_without_dll_libraries:
  "dll_libraries self = None \<Longrightarrow>
   snd (snd (link P self h a)) = Inl (TypeError NoneType_not_iterable)"
proof -
  assume n: "dll_libraries self = None"
  obtain h3 pre libs objs where "link P self h a = link_body P self a h3 pre libs objs"
    by (rule link_unfold)
  with n show ?thesis by (simp add: link_body_no_dlls)
qed

text \<open>
  C4. On a Python whose version string has no \<open>MSC v.\<close> marker (here one built with GCC),
  the constructor leaves \<open>dll_libraries = None\<close>, and a link call on the constructed object
  with the libraries \<open>m\<close> raises the type error of \<^verbatim>\<open>libraries.extend(None)\<close>; it does not
  reach the base method with the caller's list of libraries.
\<close>

theorem link_after_construction_without_msc_marker:
  "re_search_msc (sys_version example_gcc_python) = None \<and>
   map_sum id dll_libraries (snd (CygwinCCompiler_init example_gcc_python example_base)) =
     Inr None \<and>
   (case snd (CygwinCCompiler_init example_gcc_python example_base) of
      Inl e \<Rightarrow> Inl e
    | Inr self \<Rightarrow>
        passed libraries
          (link posixpath self example_store (example_call\<lparr>export_symbols := None\<rparr>))) =
     Inl (TypeError NoneType_not_iterable)"
  by code_simp

text \<open>
  C10. The claim fails on a compiler object whose \<open>dll_libraries\<close> is \<open>None\<close>, which the
  constructor produces on a Python without the \<open>MSC v.\<close> marker: with export symbols and an
  empty \<open>objects\<close> list the call raises the type error of \<^verbatim>\<open>libraries.extend(None)\<close>, not
  the index error of \<^verbatim>\<open>objects[0]\<close>, and with an empty list of export symbols and a
  non-empty \<open>objects\<close> list it raises the same type error and writes no file.
\<close>

theorem link_export_without_dll_libraries:
  "map_sum id
     (\<lambda>self. (export_symbols example_call,
               target_desc example_call = EXECUTABLE self,
               deref [[], [''m''], [''-O2'']] (objects example_call),
               fst (link posixpath self [[], [''m''], [''-O2'']] example_call),
               snd (snd (link posixpath self [[], [''m''], [''-O2'']] example_call))))
     (snd (CygwinCCompiler_init example_gcc_python example_base)) =
     Inr (Some [''foo'', ''bar''], False, [], [], Inl (TypeError NoneType_not_iterable)) \<and>
   map_sum id
     (\<lambda>self. (deref example_store (objects example_call),
               fst (link posixpath self example_store
                      (example_call\<lparr>export_symbols := Some []\<rparr>)),
               snd (snd (link posixpath self example_store
                           (example_call\<lparr>export_symbols := Some []\<rparr>)))))
     (snd (CygwinCCompiler_init example_gcc_python example_base)) =
     Inr ([''build/a.o''], [], Inl (TypeError NoneType_not_iterable))"
  by code_simp

subsection \<open>Output paths\<close>




lemma make_out_path_same_normcase:
  "normcase P s1 = normcase P s2 \<Longrightarrow>
   make_out_path P self out_dir strip_dir s1 = make_out_path P self out_dir strip_dir s2"
  by (simp add: make_out_path_def)




lemma make_out_path_ntpath_examples:
  "make_out_path ntpath example_self ''build'' False ''FOO.RC'' =
     Inr (''build'' @ [CHR 0x5C] @ ''foo.rc.o'') \<and>
   make_out_path ntpath example_self ''build'' False ''foo.rc'' =
     Inr (''build'' @ [CHR 0x5C] @ ''foo.rc.o'') \<and>
   make_out_path ntpath example_self ''build'' False [CHR 0xC9, CHR ''.'', CHR ''R'', CHR ''C''] =
     Inr (''build'' @ [CHR 0x5C, CHR 0xE9] @ ''.rc.o'') \<and>
   make_out_path ntpath example_self ''build'' True ''C:/Src/Main.C'' =
     Inr (''build'' @ [CHR 0x5C] @ ''main.o'')"
  by code_simp

subsection \<open>The constructors\<close>

lemma CygwinCCompiler_init_cc:
  "snd (CygwinCCompiler_init env self0) = Inr s \<Longrightarrow> cc s = environ_get env ''CC'' ''gcc''"
  by (auto simp: CygwinCCompiler_init_def Let_def set_executables_def
           split: sum.splits prod.splits)

lemma Mingw32CCompiler_init_base_fails:
  "snd (CygwinCCompiler_init env self0) = Inl e \<Longrightarrow> snd (Mingw32CCompiler_init env self0) = Inl e"
  by (cases "CygwinCCompiler_init env self0") (auto simp: Mingw32CCompiler_init_def)

lemma Mingw32CCompiler_init_base_ok:
  "snd (CygwinCCompiler_init env self0) = Inr s \<Longrightarrow>
   is_cygwincc env (cc s) = Inr cyg \<Longrightarrow>
   snd (Mingw32CCompiler_init env self0) =
     (if cyg then Inl (CCompilerError ''Cygwin gcc cannot be used with --compiler=mingw32'')
      else Inr (set_executables (s\<lparr>compiler_type := ''mingw32''\<rparr>)
                  [(''compiler'', cc s @ '' -O -Wall''),
                   (''compiler_so'', cc s @ '' -mdll -O -Wall''),
                   (''compiler_cxx'', cxx s @ '' -O -Wall''),
                   (''linker_exe'', cc s),
                   (''linker_so'', linker_dll s @ '' '' @ ''-shared'')]))"
  by (cases "CygwinCCompiler_init env self0") (auto simp: Mingw32CCompiler_init_def Let_def)

text \<open>
  C7 (amended). Once the constructor of the base class \<open>CygwinCCompiler\<close> has completed:
  the constructor of \<open>Mingw32CCompiler\<close> raises the \<open>CCompilerError\<close> when \<open>is_cygwincc\<close>
  answers true for the configured compiler, and returns the object, of compiler type
  \<open>mingw32\<close>, when it answers false.
\<close>

theorem Mingw32CCompiler_init_cygwin_check:
  assumes "snd (CygwinCCompiler_init env self0) = Inr s"
    and "is_cygwincc env (cc s) = Inr cyg"
  shows "cc s = environ_get env ''CC'' ''gcc'' \<and>
         (if cyg
          then snd (Mingw32CCompiler_init env self0) =
                 Inl (CCompilerError ''Cygwin gcc cannot be used with --compiler=mingw32'')
          else \<exists>self. snd (Mingw32CCompiler_init env self0) = Inr self \<and>
                 compiler_type self = ''mingw32'')"
  using Mingw32CCompiler_init_base_ok [OF assms] CygwinCCompiler_init_cc [OF assms(1)]
  by (simp add: set_executables_def)

theorem Mingw32CCompiler_init_cygwin_check_witness:
  "map_sum id cc (snd (CygwinCCompiler_init example_msvc_python_cygwin_gcc example_base)) =
     Inr ''gcc'' \<and>
   is_cygwincc example_msvc_python_cygwin_gcc ''gcc'' = Inr True \<and>
   snd (Mingw32CCompiler_init example_msvc_python_cygwin_gcc example_base) =
     Inl (CCompilerError ''Cygwin gcc cannot be used with --compiler=mingw32'')"
proof -
  have g: "map_sum id cc (snd (CygwinCCompiler_init example_msvc_python_cygwin_gcc example_base)) =
     Inr ''gcc''" by code_simp
  then obtain s where
    b: "snd (CygwinCCompiler_init example_msvc_python_cygwin_gcc example_base) = Inr s"
    and c: "cc s = ''gcc''"
    by (cases "snd (CygwinCCompiler_init example_msvc_python_cygwin_gcc example_base)") auto
  have i: "is_cygwincc example_msvc_python_cygwin_gcc ''gcc'' = Inr True" by code_simp
  then have i': "is_cygwincc example_msvc_python_cygwin_gcc (cc s) = Inr True" by (simp add: c)
  from Mingw32CCompiler_init_cygwin_check [OF b i'] g i show ?thesis by simp
qed

theorem Mingw32CCompiler_init_counterexample:
  "is_cygwincc example_msc2000_python_cygwin_gcc
     (environ_get example_msc2000_python_cygwin_gcc ''CC'' ''gcc'') = Inr True \<and>
   snd (Mingw32CCompiler_init example_msc2000_python_cygwin_gcc example_base) =
     Inl (ValueError ''Unknown MS Compiler version 2000 '') \<and>
   is_cygwincc example_msc2000_python (environ_get example_msc2000_python ''CC'' ''gcc'') =
     Inr False \<and>
   snd (Mingw32CCompiler_init example_msc2000_python example_base) =
     Inl (ValueError ''Unknown MS Compiler version 2000 '')"
  by code_simp

lemma Mingw32CCompiler_init_mingw_example:
  "is_cygwincc example_msvc_python (environ_get example_msvc_python ''CC'' ''gcc'') = Inr False \<and>
   map_sum id compiler_type (snd (Mingw32CCompiler_init example_msvc_python example_base)) =
     Inr ''mingw32''"
  by code_simp

lemma make_out_path_posixpath_example:
  "make_out_path posixpath example_self ''build'' False ''foo.rc'' = Inr ''build/foo.rc.o'' \<and>
   make_out_path posixpath example_self ''build'' False ''FOO.RC'' =
     Inl (UnknownFileError
            (''unknown file type '' @ [CHR 0x27] @ ''.RC'' @ [CHR 0x27] @ '' (from '' @
             [CHR 0x27] @ ''FOO.RC'' @ [CHR 0x27] @ '')''))"
  by code_simp

end
